theory Spec2Isabelle
  imports Main "HOL-Library.Word"
begin

unbundle bit_operations_syntax

section \<open>Data model\<close>

text \<open>
  A numpy array as the program uses it: a shape (height, width), as read by
  \<^verbatim>\<open>self.image.shape[:2]\<close>, and the rows of elements. The image read by
  \<^verbatim>\<open>cv2.imread\<close> has three 8-bit channels per pixel, the mask has one.
\<close>

type_synonym pixel = "8 word \<times> 8 word \<times> 8 word"

record 'a ndarray =
  shape :: "nat \<times> nat"
  rows :: "'a list list"

type_synonym img = "pixel ndarray"
type_synonym mask = "8 word ndarray"

text \<open>
  The exceptions the program can meet, each with its message: the two Python
  exceptions the source raises, and \<^verbatim>\<open>cv2.error\<close>, raised by OpenCV itself.
  All three are subclasses of \<^verbatim>\<open>Exception\<close>.
\<close>

datatype error = FileNotFoundError string | ValueError string | cv2_error string

text \<open>\<^verbatim>\<open>str(e)\<close>, as \<^verbatim>\<open>print(e)\<close> shows it.\<close>

fun message :: "error \<Rightarrow> string" where
  "message (FileNotFoundError m) = m"
| "message (ValueError m) = m"
| "message (cv2_error m) = m"

text \<open>
  The external collaborators the source calls and does not implement: the file
  system test, the image decoder (\<^verbatim>\<open>None\<close> when the file cannot be decoded) and
  the inpainting algorithm.
\<close>

record env =
  os_path_exists :: "string \<Rightarrow> bool"
  cv2_imread :: "string \<Rightarrow> img option"
  cv2_inpaint :: "img \<Rightarrow> mask \<Rightarrow> int \<Rightarrow> int \<Rightarrow> img"

text \<open>The object: \<^verbatim>\<open>self.image_path\<close> and \<^verbatim>\<open>self.image\<close>.\<close>

record tool =
  image_path :: string
  image :: img

text \<open>
  What the program does to the outside: the lines printed, the windows open, the
  windows with a mouse callback, and the image each window shows.
\<close>

record world =
  console :: "string list"
  windows :: "string list"
  callbacks :: "string list"
  displayed :: "(string \<times> img) list"

text \<open>OpenCV's constants.\<close>

definition INPAINT_NS :: int where "INPAINT_NS = 0"
definition INPAINT_TELEA :: int where "INPAINT_TELEA = 1"
definition EVENT_MOUSEMOVE :: int where "EVENT_MOUSEMOVE = 0"
definition EVENT_LBUTTONDOWN :: int where "EVENT_LBUTTONDOWN = 1"
definition EVENT_RBUTTONDOWN :: int where "EVENT_RBUTTONDOWN = 2"
definition EVENT_LBUTTONUP :: int where "EVENT_LBUTTONUP = 4"

section \<open>Strings\<close>

text \<open>
  Strings are modelled over the code points 0 to 255. \<^verbatim>\<open>str.lower\<close> maps A..Z and
  the capital letters of Latin-1 (0xC0..0xDE without the multiplication sign 0xD7)
  to the code point 32 higher and leaves every other code point alone.
\<close>

definition lower_char :: "char \<Rightarrow> char" where
  "lower_char c =
     (let n = (of_char c :: nat)
      in if (65 \<le> n \<and> n \<le> 90) \<or> (192 \<le> n \<and> n \<le> 222 \<and> n \<noteq> 215)
         then char_of (n + 32) else c)"

definition lower :: "string \<Rightarrow> string" where
  "lower s = map lower_char s"

definition quote :: string where
  "quote = [CHR 0x27]"

text \<open>\<^verbatim>\<open>str\<close> of an integer and of a pair of integers, as an f-string formats them.\<close>

definition digit :: "nat \<Rightarrow> char" where
  "digit d = char_of (48 + d)"

fun str_nat :: "nat \<Rightarrow> string" where
  "str_nat n = (if n < 10 then [digit n] else str_nat (n div 10) @ [digit (n mod 10)])"

declare str_nat.simps [simp del]

definition str_int :: "int \<Rightarrow> string" where
  "str_int i = (if i < 0 then ''-'' @ str_nat (nat (- i)) else str_nat (nat i))"

definition str_coords :: "int \<times> int \<Rightarrow> string" where
  "str_coords c = ''('' @ str_int (fst c) @ '', '' @ str_int (snd c) @ '')''"

definition print :: "string \<Rightarrow> world \<Rightarrow> world" where
  "print line w = w\<lparr>console := console w @ [line]\<rparr>"

section \<open>Loading\<close>

definition PathNotFound :: "string \<Rightarrow> error" where
  "PathNotFound path =
     FileNotFoundError (''Error: The image path '' @ quote @ path @ quote @ '' does not exist.'')"

definition ImageDecodeFailure :: error where
  "ImageDecodeFailure =
     ValueError ''Error: Could not load the image. Ensure the file is a valid image format.''"

definition InvalidMethod :: error where
  "InvalidMethod =
     ValueError (''Invalid method. Choose '' @ quote @ ''telea'' @ quote @ '' or ''
                 @ quote @ ''ns'' @ quote @ ''.'')"

definition load_image :: "env \<Rightarrow> string \<Rightarrow> error + img" where
  "load_image e path =
     (if \<not> os_path_exists e path then Inl (PathNotFound path)
      else case cv2_imread e path of
             None \<Rightarrow> Inl ImageDecodeFailure
           | Some im \<Rightarrow> Inr im)"

text \<open>The constructor \<^verbatim>\<open>__init__\<close>.\<close>

definition ImageInpaintingTool :: "env \<Rightarrow> string \<Rightarrow> error + tool" where
  "ImageInpaintingTool e path =
     (case load_image e path of
        Inl err \<Rightarrow> Inl err
      | Inr im \<Rightarrow> Inr \<lparr>image_path = path, image = im\<rparr>)"

section \<open>The mask\<close>

text \<open>\<^verbatim>\<open>np.zeros((h, w), dtype=np.uint8)\<close>.\<close>

definition np_zeros :: "nat \<times> nat \<Rightarrow> mask" where
  "np_zeros hw = \<lparr>shape = hw, rows = replicate (fst hw) (replicate (snd hw) 0)\<rparr>"

definition in_circle :: "int \<times> int \<Rightarrow> int \<Rightarrow> int \<Rightarrow> int \<Rightarrow> bool" where
  "in_circle c r px py \<longleftrightarrow> (px - fst c) * (px - fst c) + (py - snd c) * (py - snd c) \<le> r * r"

definition fill_row :: "int \<times> int \<Rightarrow> int \<Rightarrow> 8 word \<Rightarrow> nat \<times> 8 word list \<Rightarrow> 8 word list" where
  "fill_row c r color yrow =
     map (\<lambda>(px, v). if in_circle c r (int px) (int (fst yrow)) then color else v)
         (enumerate 0 (snd yrow))"

text \<open>
  Modelled from the spec: \<^verbatim>\<open>cv2.circle(mask, center, radius, color, -1)\<close>, OpenCV's
  drawing primitive called with thickness -1 (filled), is not part of the
  repository. The spec (4.2) gives it as a filled circle of the colour centred at
  the coordinate with the given radius, clipped to the dimensions of the grid;
  here the circle is the set of grid points whose distance to the centre is at most
  the radius. The primitive draws into the array it is given and leaves the other
  elements alone. A negative radius is outside the spec's words (it asks for a
  radius of at least 0 and leaves the rest open): there the model follows OpenCV,
  whose \<^verbatim>\<open>circle\<close> asserts \<^verbatim>\<open>radius >= 0\<close> and raises \<^verbatim>\<open>cv2.error\<close>; the message
  is abridged. Coordinates and radius are Python's unbounded integers; their
  conversion to C integers is not modelled.
\<close>

definition cv2_circle_filled :: "mask \<Rightarrow> int \<times> int \<Rightarrow> int \<Rightarrow> 8 word \<Rightarrow> error + mask" where
  "cv2_circle_filled m center radius color =
     (if radius < 0 then Inl (cv2_error ''(-215:Assertion failed) radius >= 0'')
      else Inr (m\<lparr>rows := map (fill_row center radius color) (enumerate 0 (rows m))\<rparr>))"

definition create_mask :: "tool \<Rightarrow> int \<times> int \<Rightarrow> int \<Rightarrow> error + mask" where
  "create_mask t target_coords radius =
     (let m = np_zeros (shape (image t))
      in cv2_circle_filled m target_coords radius 255)"

text \<open>The number of elements of value 255, and whether every row has the width of the shape.\<close>

definition count255 :: "mask \<Rightarrow> nat" where
  "count255 m = sum_list (map (\<lambda>row. length (filter (\<lambda>v. v = 255) row)) (rows m))"

definition grid_ok :: "'a ndarray \<Rightarrow> bool" where
  "grid_ok a \<longleftrightarrow> length (rows a) = fst (shape a) \<and> list_all (\<lambda>row. length row = snd (shape a)) (rows a)"

section \<open>Inpainting\<close>

definition get_inpainting_flags :: "string \<Rightarrow> error + int" where
  "get_inpainting_flags method =
     (if lower method = ''telea'' then Inr INPAINT_TELEA
      else if lower method = ''ns'' then Inr INPAINT_NS
      else Inl InvalidMethod)"

definition inpaint_line :: "int \<times> int \<Rightarrow> string \<Rightarrow> string" where
  "inpaint_line target_coords method =
     ''Inpainting applied at '' @ str_coords target_coords @ '' using '' @ quote @ method
     @ quote @ '' method.''"

text \<open>
  \<^verbatim>\<open>apply_inpainting\<close>: the mask first, then the flags, then the library call and
  the assignment to \<^verbatim>\<open>self.image\<close>, then the log line. An exception leaves the
  object and the console as they were.
\<close>

definition apply_inpainting ::
  "env \<Rightarrow> int \<times> int \<Rightarrow> int \<Rightarrow> string \<Rightarrow> tool \<times> world \<Rightarrow> (error + unit) \<times> tool \<times> world" where
  "apply_inpainting e target_coords radius method s =
     (case create_mask (fst s) target_coords radius of
        Inl err \<Rightarrow> (Inl err, s)
      | Inr m \<Rightarrow>
          (case get_inpainting_flags method of
             Inl err \<Rightarrow> (Inl err, s)
           | Inr flags \<Rightarrow>
               (Inr (),
                (fst s)\<lparr>image := cv2_inpaint e (image (fst s)) m radius flags\<rparr>,
                print (inpaint_line target_coords method) (snd s))))"

section \<open>The mouse callback\<close>

text \<open>
  \<^verbatim>\<open>_handle_mouse_click(event, x, y, flags, param)\<close>: a press of the left button
  prints the coordinates and inpaints there with the default radius 10 and the
  default method; every other event does nothing.
\<close>

definition coords_line :: "int \<times> int \<Rightarrow> string" where
  "coords_line click_coords = ''Coordinates received: '' @ str_coords click_coords"

definition handle_mouse_click ::
  "env \<Rightarrow> int \<Rightarrow> int \<Rightarrow> int \<Rightarrow> int \<Rightarrow> 'p \<Rightarrow> tool \<times> world \<Rightarrow> (error + unit) \<times> tool \<times> world" where
  "handle_mouse_click e event x y flags param s =
     (if event = EVENT_LBUTTONDOWN
      then (let click_coords = (x, y)
            in apply_inpainting e click_coords 10 ''telea''
                 (fst s, print (coords_line click_coords) (snd s)))
      else (Inr (), s))"

section \<open>The interactive session\<close>

definition window_name :: string where
  "window_name = ''Image Inpainting''"

definition cv2_namedWindow :: "string \<Rightarrow> world \<Rightarrow> world" where
  "cv2_namedWindow name w = w\<lparr>windows := List.insert name (windows w)\<rparr>"

definition cv2_setMouseCallback :: "string \<Rightarrow> world \<Rightarrow> world" where
  "cv2_setMouseCallback name w = w\<lparr>callbacks := List.insert name (callbacks w)\<rparr>"

definition cv2_imshow :: "string \<Rightarrow> img \<Rightarrow> world \<Rightarrow> world" where
  "cv2_imshow name im w =
     w\<lparr>windows := List.insert name (windows w),
       displayed := (name, im) # filter (\<lambda>d. fst d \<noteq> name) (displayed w)\<rparr>"

definition cv2_destroyAllWindows :: "world \<Rightarrow> world" where
  "cv2_destroyAllWindows w = w\<lparr>windows := [], callbacks := [], displayed := []\<rparr>"

definition initialize_interactive_session :: "world \<Rightarrow> world" where
  "initialize_interactive_session w =
     cv2_setMouseCallback window_name (cv2_namedWindow window_name w)"

text \<open>
  One turn of the loop is one call of \<^verbatim>\<open>cv2.waitKey(1)\<close>: the window system
  hands the queued mouse events (event, x, y, flags) to the callback, then the
  call returns a key code, -1 when no key was pressed.
\<close>

record tick =
  mouse :: "(int \<times> int \<times> int \<times> int) list"
  key :: int

text \<open>The callback on each queued event in turn; an exception ends the delivery.\<close>

fun deliver :: "env \<Rightarrow> (int \<times> int \<times> int \<times> int) list \<Rightarrow> tool \<times> world \<Rightarrow> (error + unit) \<times> tool \<times> world" where
  "deliver e [] s = (Inr (), s)"
| "deliver e ((event, x, y, flags) # evs) s =
     (case handle_mouse_click e event x y flags () s of
        (Inl err, s') \<Rightarrow> (Inl err, s')
      | (Inr u, s') \<Rightarrow> deliver e evs s')"

text \<open>
  \<^verbatim>\<open>while True\<close>: show the image, wait for a key, leave on ESC. The loop runs on
  the turns it is given; when they end before ESC was pressed the loop has not
  returned, which is \<open>None\<close>. An exception of the callback leaves the loop, which the
  source does not guard.
\<close>

fun session_loop :: "env \<Rightarrow> tick list \<Rightarrow> tool \<times> world \<Rightarrow> ((error + unit) \<times> tool \<times> world) option" where
  "session_loop e [] s = None"
| "session_loop e (tk # tks) s =
     (let w1 = cv2_imshow window_name (image (fst s)) (snd s)
      in case deliver e (mouse tk) (fst s, w1) of
           (Inl err, s') \<Rightarrow> Some (Inl err, s')
         | (Inr u, s') \<Rightarrow>
             (if key tk AND 0xFF = 27 then Some (Inr (), s')
              else session_loop e tks s'))"

definition run_interactive_session ::
  "env \<Rightarrow> tick list \<Rightarrow> tool \<times> world \<Rightarrow> ((error + unit) \<times> tool \<times> world) option" where
  "run_interactive_session e tks s =
     (let w1 = initialize_interactive_session (snd s);
          w2 = print ''Press ESC to exit.'' w1
      in case session_loop e tks (fst s, w2) of
           None \<Rightarrow> None
         | Some (Inl err, s') \<Rightarrow> Some (Inl err, s')
         | Some (Inr u, s') \<Rightarrow>
             Some (Inr (), fst s',
                   print ''Interactive session ended.'' (cv2_destroyAllWindows (snd s'))))"

section \<open>The entry point\<close>

text \<open>
  The body of the \<^verbatim>\<open>try\<close> block, and the block with its handler
  \<^verbatim>\<open>except Exception as e: print(e)\<close>. A result \<open>Inl\<close> of \<open>main\<close> would be an
  exception that leaves the program.
\<close>

definition main_try :: "env \<Rightarrow> tick list \<Rightarrow> world \<Rightarrow> ((error + unit) \<times> world) option" where
  "main_try e tks w =
     (let image_path = ''data/example.png''
      in case ImageInpaintingTool e image_path of
           Inl err \<Rightarrow> Some (Inl err, w)
         | Inr inpainting_tool \<Rightarrow>
             (let w1 = print ''Image loaded successfully.'' w
              in case run_interactive_session e tks (inpainting_tool, w1) of
                   None \<Rightarrow> None
                 | Some (r, s') \<Rightarrow> Some (r, snd s')))"

definition except_print :: "(error + unit) \<times> world \<Rightarrow> (error + unit) \<times> world" where
  "except_print rw =
     (case fst rw of
        Inl err \<Rightarrow> (Inr (), print (message err) (snd rw))
      | Inr u \<Rightarrow> (Inr u, snd rw))"

definition main :: "env \<Rightarrow> tick list \<Rightarrow> world \<Rightarrow> ((error + unit) \<times> world) option" where
  "main e tks w = map_option except_print (main_try e tks w)"

definition world0 :: world where
  "world0 = \<lparr>console = [], windows = [], callbacks = [], displayed = []\<rparr>"

section \<open>Reading the console, and inputs to run the program on\<close>

definition starts_with :: "string \<Rightarrow> string \<Rightarrow> bool" where
  "starts_with p l \<longleftrightarrow> take (length p) l = p"

definition is_inpaint_line :: "string \<Rightarrow> bool" where
  "is_inpaint_line l \<longleftrightarrow> starts_with ''Inpainting applied at '' l"

definition is_coords_line :: "string \<Rightarrow> bool" where
  "is_coords_line l \<longleftrightarrow> starts_with ''Coordinates received: '' l"

text \<open>
  A string that differs from a name of lower-case letters only in the case of its
  letters: each character is the letter itself or its capital, 32 code points below.
\<close>

definition is_case_variant :: "string \<Rightarrow> string \<Rightarrow> bool" where
  "is_case_variant name m \<longleftrightarrow>
     list_all2 (\<lambda>c d. c = d \<or> (of_char c :: nat) + 32 = of_char d) m name"

text \<open>
  The coordinates of the left-button presses among queued events, and of those
  delivered up to and including the first turn that returns ESC.
\<close>

fun left_clicks :: "(int \<times> int \<times> int \<times> int) list \<Rightarrow> (int \<times> int) list" where
  "left_clicks [] = []"
| "left_clicks ((event, x, y, flags) # evs) =
     (if event = EVENT_LBUTTONDOWN then (x, y) # left_clicks evs else left_clicks evs)"

fun clicks_until_esc :: "tick list \<Rightarrow> (int \<times> int) list" where
  "clicks_until_esc [] = []"
| "clicks_until_esc (tk # tks) =
     left_clicks (mouse tk) @ (if key tk AND 0xFF = 27 then [] else clicks_until_esc tks)"

definition click_lines :: "int \<times> int \<Rightarrow> string list" where
  "click_lines c = [coords_line c, inpaint_line c ''telea'']"

text \<open>The messages of the errors the entry point caught in a run.\<close>

definition caught_messages :: "env \<Rightarrow> tick list \<Rightarrow> world \<Rightarrow> string list" where
  "caught_messages e tks w =
     (case main_try e tks w of Some (Inl err, w') \<Rightarrow> [message err] | _ \<Rightarrow> [])"

text \<open>
  The lines the spec (6) enumerates, given the messages of the errors caught: the
  line on a successful load, a line per inpaint application, the line on session
  start, the line on session end, and the message of a caught error.
\<close>

definition enumerated_line :: "string list \<Rightarrow> string \<Rightarrow> bool" where
  "enumerated_line caught l \<longleftrightarrow>
     l = ''Image loaded successfully.'' \<or> is_inpaint_line l \<or> l = ''Press ESC to exit.''
     \<or> l = ''Interactive session ended.'' \<or> l \<in> set caught"

text \<open>
  A black image of 3 by 3 pixels at the program's path, a white image of the same
  dimensions, a file that exists and is no image, and an inpainting routine that
  returns a black image as it is.
\<close>

definition example_image :: img where
  "example_image = \<lparr>shape = (3, 3), rows = replicate 3 (replicate 3 (0, 0, 0))\<rparr>"

definition example_tool :: tool where
  "example_tool = \<lparr>image_path = ''data/example.png'', image = example_image\<rparr>"

definition white_tool :: tool where
  "white_tool =
     \<lparr>image_path = ''data/white.png'',
      image = \<lparr>shape = (3, 3), rows = replicate 3 (replicate 3 (255, 255, 255))\<rparr>\<rparr>"

definition example_env :: env where
  "example_env =
     \<lparr>os_path_exists = (\<lambda>p. p = ''data/example.png'' \<or> p = ''notes.png''),
      cv2_imread = (\<lambda>p. if p = ''data/example.png'' then Some example_image else None),
      cv2_inpaint = (\<lambda>im m r f. im)\<rparr>"

definition esc_tick :: tick where
  "esc_tick = \<lparr>mouse = [], key = 27\<rparr>"

definition click_tick :: tick where
  "click_tick = \<lparr>mouse = [(EVENT_MOUSEMOVE, 1, 1, 0), (EVENT_LBUTTONDOWN, 1, 1, 1)], key = - 1\<rparr>"

definition example_ticks :: "tick list" where
  "example_ticks = [click_tick, esc_tick]"

section \<open>The mask builder\<close>

lemma enumerate_replicate: "enumerate n (replicate k x) = map (\<lambda>i. (i, x)) [n..<n + k]"
proof (induction k arbitrary: n)
  case 0
  then show ?case by simp
next
  case (Suc k)
  have "[n..<n + Suc k] = n # [Suc n..<Suc n + k]"
    by (simp add: upt_rec)
  then show ?case using Suc [of "Suc n"] by simp
qed

lemma fill_row_zeros:
  "fill_row c r color (py, replicate w 0) =
     map (\<lambda>px. if in_circle c r (int px) (int py) then color else 0) [0..<w]"
  by (simp add: fill_row_def enumerate_replicate)

lemma create_mask_rows:
  assumes "0 \<le> r"
  shows "create_mask t c r =
     Inr \<lparr>shape = shape (image t),
          rows = map (\<lambda>py. map (\<lambda>px. if in_circle c r (int px) (int py) then 255 else 0)
                                [0..<snd (shape (image t))])
                     [0..<fst (shape (image t))]\<rparr>"
  using assms
  by (simp add: create_mask_def cv2_circle_filled_def np_zeros_def enumerate_replicate
      fill_row_zeros)

lemma create_mask_ok: "0 \<le> r \<Longrightarrow> \<exists>m. create_mask t c r = Inr m"
  by (simp add: create_mask_def cv2_circle_filled_def Let_def)

lemma create_mask_negative:
  "r < 0 \<Longrightarrow> create_mask t c r = Inl (cv2_error ''(-215:Assertion failed) radius >= 0'')"
  by (simp add: create_mask_def cv2_circle_filled_def)

lemma create_mask_shape_only:
  "shape (image t') = shape (image t) \<Longrightarrow> create_mask t' c r = create_mask t c r"
  by (simp add: create_mask_def)

lemma in_circle_mono:
  assumes "0 \<le> r1" "r1 \<le> r2" "in_circle c r1 px py"
  shows "in_circle c r2 px py"
proof -
  have "r1 * r1 \<le> r2 * r2" using assms(1,2) by (intro mult_mono) auto
  then show ?thesis using assms(3) by (simp add: in_circle_def)
qed

lemma count_row:
  "length (filter (\<lambda>v. v = (255 :: 8 word)) (map (\<lambda>px. if P px then 255 else 0) xs))
     = length (filter P xs)"
  by (induction xs) auto

lemma filter_length_mono:
  "(\<And>x. x \<in> set xs \<Longrightarrow> P x \<Longrightarrow> Q x) \<Longrightarrow> length (filter P xs) \<le> length (filter Q xs)"
  by (induction xs) auto

lemma count255_create_mask:
  assumes "0 \<le> r" "create_mask t c r = Inr m"
  shows "count255 m = (\<Sum>py\<leftarrow>[0..<fst (shape (image t))].
            length (filter (\<lambda>px. in_circle c r (int px) (int py)) [0..<snd (shape (image t))]))"
  using assms create_mask_rows [OF assms(1), of t c]
  by (auto simp: count255_def comp_def count_row)

lemma example_mask:
  "create_mask example_tool (1, 1) 1 =
     Inr \<lparr>shape = (3, 3), rows = [[0, 255, 0], [255, 255, 255], [0, 255, 0]]\<rparr>"
  by code_simp

text \<open>
  C3: for every coordinate and every non-negative radius the mask builder returns a
  single-channel grid with the height and the width of the current image, starting
  from a grid of zeros, whose values are 0 and 255 only; an element is 255 exactly
  when it lies in the circle of the given radius around the coordinate.
\<close>

theorem mask_shape_binary:
  assumes "0 \<le> radius"
  shows "\<exists>m. create_mask t c radius = Inr m
           \<and> shape m = shape (image t) \<and> grid_ok m
           \<and> (\<forall>row \<in> set (rows (np_zeros (shape (image t)))). \<forall>v \<in> set row. v = 0)
           \<and> (\<forall>row \<in> set (rows m). \<forall>v \<in> set row. v = 0 \<or> v = 255)
           \<and> (\<forall>py < fst (shape m). \<forall>px < snd (shape m).
                 rows m ! py ! px = (if in_circle c radius (int px) (int py) then 255 else 0))"
  using create_mask_rows [OF assms, of t c]
  by (auto simp: grid_ok_def list_all_iff np_zeros_def)

theorem mask_shape_binary_witness:
  "(0::int) \<le> 1
   \<and> create_mask example_tool (1, 1) 1 =
       Inr \<lparr>shape = (3, 3), rows = [[0, 255, 0], [255, 255, 255], [0, 255, 0]]\<rparr>
   \<and> (\<exists>m. create_mask example_tool (1, 1) 1 = Inr m
          \<and> shape m = shape (image example_tool) \<and> grid_ok m
          \<and> (\<forall>row \<in> set (rows m). \<forall>v \<in> set row. v = 0 \<or> v = 255))"
proof -
  have h: "(0::int) \<le> 1" by simp
  from mask_shape_binary [OF h, of example_tool "(1, 1)"]
  obtain m where "create_mask example_tool (1, 1) 1 = Inr m"
    and "shape m = shape (image example_tool)" and "grid_ok m"
    and "\<forall>row \<in> set (rows m). \<forall>v \<in> set row. v = 0 \<or> v = 255"
    by blast
  then have "\<exists>m. create_mask example_tool (1, 1) 1 = Inr m
          \<and> shape m = shape (image example_tool) \<and> grid_ok m
          \<and> (\<forall>row \<in> set (rows m). \<forall>v \<in> set row. v = 0 \<or> v = 255)"
    by blast
  with h example_mask show ?thesis by blast
qed

text \<open>
  C4: for a fixed coordinate and fixed image dimensions, the number of elements of
  value 255 in the mask does not decrease as the non-negative radius grows.
\<close>

theorem mask_count_monotone:
  assumes "0 \<le> r1" "r1 \<le> r2"
  shows "\<exists>m1 m2. create_mask t c r1 = Inr m1 \<and> create_mask t c r2 = Inr m2
            \<and> count255 m1 \<le> count255 m2"
proof -
  have r2: "0 \<le> r2" using assms by simp
  obtain m1 where m1: "create_mask t c r1 = Inr m1"
    using create_mask_rows [OF assms(1)] by blast
  obtain m2 where m2: "create_mask t c r2 = Inr m2"
    using create_mask_rows [OF r2] by blast
  have "count255 m1 \<le> count255 m2"
    unfolding count255_create_mask [OF assms(1) m1] count255_create_mask [OF r2 m2]
    by (intro sum_list_mono filter_length_mono) (rule in_circle_mono [OF assms])
  with m1 m2 show ?thesis by blast
qed

theorem mask_count_monotone_witness:
  "(0::int) \<le> 0 \<and> (0::int) \<le> 1
   \<and> (\<exists>m1 m2. create_mask example_tool (1, 1) 0 = Inr m1
          \<and> create_mask example_tool (1, 1) 1 = Inr m2
          \<and> count255 m1 \<le> count255 m2)"
proof -
  have h0: "(0::int) \<le> 0" and h1: "(0::int) \<le> 1" by simp_all
  from mask_count_monotone [OF h0 h1, of example_tool "(1, 1)"] h0 h1
  show ?thesis by blast
qed

text \<open>
  C9, as amended: for every target coordinate, inside the image or not, and every
  non-negative radius the mask builder returns a mask and raises nothing, and the
  mask depends on the image only through its dimensions: with equal dimensions,
  equal coordinates and equal radius the masks are the same. (A negative radius is
  rejected by the drawing primitive.)
\<close>

theorem mask_builder_total:
  assumes "0 \<le> radius"
  shows "(\<exists>m. create_mask t c radius = Inr m)
       \<and> (\<forall>t'. shape (image t') = shape (image t)
              \<longrightarrow> create_mask t' c radius = create_mask t c radius)"
  using create_mask_ok [OF assms] create_mask_shape_only by blast

theorem mask_builder_total_witness:
  "(0::int) \<le> 10
   \<and> shape (image white_tool) = shape (image example_tool)
   \<and> create_mask example_tool (- 5, 500) 10 =
       Inr \<lparr>shape = (3, 3), rows = [[0, 0, 0], [0, 0, 0], [0, 0, 0]]\<rparr>
   \<and> create_mask white_tool (- 5, 500) 10 = create_mask example_tool (- 5, 500) 10"
proof -
  have h: "(0::int) \<le> 10" by simp
  have s: "shape (image white_tool) = shape (image example_tool)"
    by (simp add: white_tool_def example_tool_def example_image_def)
  have v: "create_mask example_tool (- 5, 500) 10 =
       Inr \<lparr>shape = (3, 3), rows = [[0, 0, 0], [0, 0, 0], [0, 0, 0]]\<rparr>"
    by code_simp
  from mask_builder_total [OF h, of example_tool "(- 5, 500)"] s
  have "create_mask white_tool (- 5, 500) 10 = create_mask example_tool (- 5, 500) 10"
    by blast
  with h s v show ?thesis by blast
qed

text \<open>
  C9 as stated fails: with the radius -1 the mask builder raises \<^verbatim>\<open>cv2.error\<close>.
\<close>

theorem mask_builder_negative_radius:
  "create_mask example_tool (1, 1) (- 1) = Inl (cv2_error ''(-215:Assertion failed) radius >= 0'')"
  by (simp add: create_mask_def cv2_circle_filled_def)

section \<open>Loading the image\<close>

text \<open>
  C2: constructing the session fails with PathNotFound (a FileNotFoundError) exactly
  when the path does not exist, fails with ImageDecodeFailure (a ValueError) exactly
  when the path exists and the file cannot be decoded, and otherwise succeeds with
  the decoded grid, which has the image's dimensions.
\<close>

theorem load_image_outcomes:
  "(ImageInpaintingTool e path = Inl (PathNotFound path) \<longleftrightarrow> \<not> os_path_exists e path)
   \<and> ((\<exists>msg. ImageInpaintingTool e path = Inl (FileNotFoundError msg))
        \<longleftrightarrow> \<not> os_path_exists e path)
   \<and> (ImageInpaintingTool e path = Inl ImageDecodeFailure
        \<longleftrightarrow> os_path_exists e path \<and> cv2_imread e path = None)
   \<and> ((\<exists>msg. ImageInpaintingTool e path = Inl (ValueError msg))
        \<longleftrightarrow> os_path_exists e path \<and> cv2_imread e path = None)
   \<and> (\<forall>t. ImageInpaintingTool e path = Inr t
        \<longleftrightarrow> os_path_exists e path \<and> cv2_imread e path = Some (image t) \<and> image_path t = path)
   \<and> (\<forall>im. load_image e path = Inr im
        \<longleftrightarrow> os_path_exists e path \<and> cv2_imread e path = Some im)"
  by (auto simp: ImageInpaintingTool_def load_image_def PathNotFound_def ImageDecodeFailure_def
      split: option.splits)

theorem load_image_outcomes_witness:
  "\<not> os_path_exists example_env ''missing.png''
   \<and> ImageInpaintingTool example_env ''missing.png'' = Inl (PathNotFound ''missing.png'')
   \<and> os_path_exists example_env ''notes.png'' \<and> cv2_imread example_env ''notes.png'' = None
   \<and> ImageInpaintingTool example_env ''notes.png'' = Inl ImageDecodeFailure
   \<and> ImageInpaintingTool example_env ''data/example.png'' = Inr example_tool
   \<and> shape (image example_tool) = (3, 3)"
proof -
  have a: "\<not> os_path_exists example_env ''missing.png''"
    and b: "os_path_exists example_env ''notes.png'' \<and> cv2_imread example_env ''notes.png'' = None"
    and c: "os_path_exists example_env ''data/example.png''
        \<and> cv2_imread example_env ''data/example.png'' = Some (image example_tool)
        \<and> image_path example_tool = ''data/example.png''"
    and d: "shape (image example_tool) = (3, 3)"
    by (simp_all add: example_env_def example_tool_def example_image_def)
  from a load_image_outcomes [of example_env "''missing.png''"]
  have 1: "ImageInpaintingTool example_env ''missing.png'' = Inl (PathNotFound ''missing.png'')"
    by blast
  from b load_image_outcomes [of example_env "''notes.png''"]
  have 2: "ImageInpaintingTool example_env ''notes.png'' = Inl ImageDecodeFailure"
    by blast
  from c load_image_outcomes [of example_env "''data/example.png''"]
  have 3: "ImageInpaintingTool example_env ''data/example.png'' = Inr example_tool"
    by blast
  from a b d 1 2 3 show ?thesis by blast
qed

section \<open>The method\<close>

lemma lower_known:
  "lower ''telea'' = ''telea''" "lower ''TELEA'' = ''telea''"
  "lower ''ns'' = ''ns''" "lower ''NS'' = ''ns''"
  by code_simp+

lemma flags_telea: "get_inpainting_flags ''telea'' = Inr INPAINT_TELEA"
  by (simp add: get_inpainting_flags_def lower_known)

lemma flags_cases:
  "get_inpainting_flags method =
     (if lower method = ''telea'' then Inr INPAINT_TELEA
      else if lower method = ''ns'' then Inr INPAINT_NS else Inl InvalidMethod)"
  by (simp add: get_inpainting_flags_def)

lemma lower_char_letter:
  assumes "97 \<le> (of_char d :: nat)" "(of_char d :: nat) \<le> 122"
  shows "lower_char c = d \<longleftrightarrow> c = d \<or> (of_char c :: nat) + 32 = of_char d"
proof -
  let ?n = "of_char c :: nat"
  show ?thesis
  proof (cases "(65 \<le> ?n \<and> ?n \<le> 90) \<or> (192 \<le> ?n \<and> ?n \<le> 222 \<and> ?n \<noteq> 215)")
    case True
    then have small: "?n + 32 < 256" by auto
    have "lower_char c = char_of (?n + 32)"
      using True by (simp add: lower_char_def Let_def)
    then have "lower_char c = d \<longleftrightarrow> take_bit 8 (?n + 32) = (of_char d :: nat)"
      by (simp add: char_of_eq_iff)
    also have "take_bit 8 (?n + 32) = ?n + 32"
      using small by (simp add: take_bit_nat_eq_self_iff)
    finally have "lower_char c = d \<longleftrightarrow> ?n + 32 = of_char d" .
    moreover have "c \<noteq> d" using True assms by auto
    ultimately show ?thesis by simp
  next
    case False
    then have "lower_char c = c" by (auto simp: lower_char_def Let_def)
    moreover have "?n + 32 \<noteq> of_char d" using False assms by auto
    ultimately show ?thesis by simp
  qed
qed

lemma lower_case_variant:
  assumes "\<forall>d \<in> set name. 97 \<le> (of_char d :: nat) \<and> (of_char d :: nat) \<le> 122"
  shows "lower m = name \<longleftrightarrow> is_case_variant name m"
  using assms
proof (induction m arbitrary: name)
  case Nil
  then show ?case by (auto simp: lower_def is_case_variant_def)
next
  case (Cons c m)
  show ?case
  proof (cases name)
    case Nil
    then show ?thesis by (simp add: lower_def is_case_variant_def)
  next
    case (Cons d ds)
    then have "lower m = ds \<longleftrightarrow> is_case_variant ds m"
      using Cons.IH [of ds] Cons.prems by simp
    moreover have "lower_char c = d \<longleftrightarrow> c = d \<or> (of_char c :: nat) + 32 = of_char d"
      using Cons.prems Cons by (intro lower_char_letter) auto
    ultimately show ?thesis using Cons
      by (simp add: lower_def is_case_variant_def)
  qed
qed

lemma recognized_variants:
  "lower method = ''telea'' \<or> lower method = ''ns''
     \<longleftrightarrow> is_case_variant ''telea'' method \<or> is_case_variant ''ns'' method"
proof -
  have "lower method = ''telea'' \<longleftrightarrow> is_case_variant ''telea'' method"
    by (rule lower_case_variant) simp
  moreover have "lower method = ''ns'' \<longleftrightarrow> is_case_variant ''ns'' method"
    by (rule lower_case_variant) simp
  ultimately show ?thesis by simp
qed

text \<open>
  C1: with a radius the mask builder accepts, inpainting succeeds for every method
  string that is a case variant of "telea" or "ns" (so for "telea", "TELEA", "ns"
  and "NS"): the image becomes the routine's output and the log line is printed.
  For every other string it fails with InvalidMethod, a ValueError, and the object
  and the console stay as they were.
\<close>

theorem apply_inpainting_method:
  assumes "0 \<le> radius"
  shows "(if is_case_variant ''telea'' method \<or> is_case_variant ''ns'' method
          then \<exists>m flags. create_mask t c radius = Inr m
                 \<and> get_inpainting_flags method = Inr flags
                 \<and> apply_inpainting e c radius method (t, w) =
                     (Inr (), t\<lparr>image := cv2_inpaint e (image t) m radius flags\<rparr>,
                      print (inpaint_line c method) w)
          else apply_inpainting e c radius method (t, w) = (Inl InvalidMethod, t, w))
       \<and> (is_case_variant ''telea'' method \<or> is_case_variant ''ns'' method
            \<longleftrightarrow> lower method = ''telea'' \<or> lower method = ''ns'')
       \<and> (\<forall>name \<in> {''telea'', ''TELEA'', ''ns'', ''NS''}.
             fst (apply_inpainting e c radius name (t, w)) = Inr ())"
proof -
  obtain m where m: "create_mask t c radius = Inr m"
    using create_mask_ok [OF assms] by blast
  have known: "fst (apply_inpainting e c radius name (t, w)) = Inr ()"
    if "lower name = ''telea'' \<or> lower name = ''ns''" for name
    using that m by (auto simp: apply_inpainting_def flags_cases)
  have four: "\<forall>name \<in> {''telea'', ''TELEA'', ''ns'', ''NS''}.
          fst (apply_inpainting e c radius name (t, w)) = Inr ()"
    using known lower_known by blast
  have "if lower method = ''telea'' \<or> lower method = ''ns''
          then \<exists>m flags. create_mask t c radius = Inr m
                 \<and> get_inpainting_flags method = Inr flags
                 \<and> apply_inpainting e c radius method (t, w) =
                     (Inr (), t\<lparr>image := cv2_inpaint e (image t) m radius flags\<rparr>,
                      print (inpaint_line c method) w)
          else apply_inpainting e c radius method (t, w) = (Inl InvalidMethod, t, w)"
    using m by (auto simp: apply_inpainting_def flags_cases)
  then show ?thesis
    unfolding recognized_variants using four by simp
qed

theorem apply_inpainting_method_witness:
  "(0::int) \<le> 10
   \<and> \<not> (is_case_variant ''telea'' ''bogus'' \<or> is_case_variant ''ns'' ''bogus'')
   \<and> apply_inpainting example_env (1, 1) 10 ''bogus'' (example_tool, world0)
       = (Inl InvalidMethod, example_tool, world0)
   \<and> fst (apply_inpainting example_env (1, 1) 10 ''TELEA'' (example_tool, world0)) = Inr ()"
proof -
  have h: "(0::int) \<le> 10" by simp
  have v: "\<not> (is_case_variant ''telea'' ''bogus'' \<or> is_case_variant ''ns'' ''bogus'')"
    by (simp add: is_case_variant_def)
  from apply_inpainting_method [OF h, of "''bogus''" example_tool "(1, 1)" example_env world0] v
  have 1: "apply_inpainting example_env (1, 1) 10 ''bogus'' (example_tool, world0)
       = (Inl InvalidMethod, example_tool, world0)"
    and 2: "\<forall>name \<in> {''telea'', ''TELEA'', ''ns'', ''NS''}.
       fst (apply_inpainting example_env (1, 1) 10 name (example_tool, world0)) = Inr ()"
    by simp_all
  from 2 have "fst (apply_inpainting example_env (1, 1) 10 ''TELEA'' (example_tool, world0)) = Inr ()"
    by blast
  with h v 1 show ?thesis by blast
qed

section \<open>The click handler\<close>

lemma is_inpaint_line_inpaint: "is_inpaint_line (inpaint_line c method)"
  by (simp add: is_inpaint_line_def starts_with_def inpaint_line_def)

lemma not_inpaint_coords: "\<not> is_inpaint_line (coords_line c)"
  by (simp add: is_inpaint_line_def starts_with_def coords_line_def)

lemma is_coords_line_coords: "is_coords_line (coords_line c)"
  by (simp add: is_coords_line_def starts_with_def coords_line_def)

lemma handle_click_other:
  "event \<noteq> EVENT_LBUTTONDOWN \<Longrightarrow> handle_mouse_click e event x y flags param s = (Inr (), s)"
  by (simp add: handle_mouse_click_def)

lemma handle_click_left:
  "\<exists>m. create_mask t (x, y) 10 = Inr m
     \<and> handle_mouse_click e EVENT_LBUTTONDOWN x y flags param (t, w) =
         (Inr (), t\<lparr>image := cv2_inpaint e (image t) m 10 INPAINT_TELEA\<rparr>,
          w\<lparr>console := console w @ [coords_line (x, y), inpaint_line (x, y) ''telea'']\<rparr>)"
proof -
  obtain m where m: "create_mask t (x, y) 10 = Inr m"
    using create_mask_ok [of 10 t "(x, y)"] by auto
  then show ?thesis
    by (simp add: handle_mouse_click_def apply_inpainting_def flags_telea print_def Let_def)
qed

lemma example_line:
  "inpaint_line (50, 50) ''telea'' =
     ''Inpainting applied at (50, 50) using '' @ quote @ ''telea'' @ quote @ '' method.''"
  by code_simp

text \<open>
  C5: a press of the left button at (x, y) forwards exactly (x, y) to the inpainting
  operation with the radius 10 and the method "telea"; the application succeeds and
  prints, for that click, exactly one line of the form
  "Inpainting applied at (x, y) using 'telea' method.".
\<close>

theorem click_forwarded:
  "\<exists>m. create_mask t (x, y) 10 = Inr m
     \<and> handle_mouse_click e EVENT_LBUTTONDOWN x y flags param (t, w) =
         apply_inpainting e (x, y) 10 ''telea'' (t, print (coords_line (x, y)) w)
     \<and> handle_mouse_click e EVENT_LBUTTONDOWN x y flags param (t, w) =
         (Inr (), t\<lparr>image := cv2_inpaint e (image t) m 10 INPAINT_TELEA\<rparr>,
          w\<lparr>console := console w @ [coords_line (x, y), inpaint_line (x, y) ''telea'']\<rparr>)
     \<and> inpaint_line (x, y) ''telea'' =
         ''Inpainting applied at ('' @ str_int x @ '', '' @ str_int y @ '') using ''
         @ quote @ ''telea'' @ quote @ '' method.''
     \<and> filter is_inpaint_line [coords_line (x, y), inpaint_line (x, y) ''telea'']
         = [inpaint_line (x, y) ''telea'']"
proof -
  obtain m where m: "create_mask t (x, y) 10 = Inr m"
    and h: "handle_mouse_click e EVENT_LBUTTONDOWN x y flags param (t, w) =
         (Inr (), t\<lparr>image := cv2_inpaint e (image t) m 10 INPAINT_TELEA\<rparr>,
          w\<lparr>console := console w @ [coords_line (x, y), inpaint_line (x, y) ''telea'']\<rparr>)"
    using handle_click_left [of t x y e flags param w] by blast
  have fwd: "handle_mouse_click e EVENT_LBUTTONDOWN x y flags param (t, w) =
         apply_inpainting e (x, y) 10 ''telea'' (t, print (coords_line (x, y)) w)"
    by (simp add: handle_mouse_click_def Let_def)
  have form: "inpaint_line (x, y) ''telea'' =
         ''Inpainting applied at ('' @ str_int x @ '', '' @ str_int y @ '') using ''
         @ quote @ ''telea'' @ quote @ '' method.''"
    by (simp add: inpaint_line_def str_coords_def)
  have one: "filter is_inpaint_line [coords_line (x, y), inpaint_line (x, y) ''telea'']
         = [inpaint_line (x, y) ''telea'']"
    by (simp add: is_inpaint_line_inpaint not_inpaint_coords)
  from m h fwd form one show ?thesis by blast
qed

theorem click_forwarded_witness:
  "fst (handle_mouse_click example_env EVENT_LBUTTONDOWN 50 50 1 () (example_tool, world0)) = Inr ()
   \<and> console (snd (snd (handle_mouse_click example_env EVENT_LBUTTONDOWN 50 50 1 ()
        (example_tool, world0))))
       = [coords_line (50, 50), inpaint_line (50, 50) ''telea'']
   \<and> inpaint_line (50, 50) ''telea'' =
       ''Inpainting applied at (50, 50) using '' @ quote @ ''telea'' @ quote @ '' method.''"
proof -
  from click_forwarded [of example_tool 50 50 example_env 1 "()" world0]
  obtain m where "handle_mouse_click example_env EVENT_LBUTTONDOWN 50 50 1 () (example_tool, world0) =
         (Inr (), example_tool\<lparr>image := cv2_inpaint example_env (image example_tool) m 10 INPAINT_TELEA\<rparr>,
          world0\<lparr>console := console world0 @ [coords_line (50, 50), inpaint_line (50, 50) ''telea'']\<rparr>)"
    by blast
  then show ?thesis using example_line by (simp add: world0_def)
qed

text \<open>
  C10: a mouse event that is not a press of the left button is ignored by the
  handler: the image, the object and the console stay as they were and no
  inpainting is invoked.
\<close>

theorem other_events_ignored:
  "event \<noteq> EVENT_LBUTTONDOWN \<Longrightarrow>
     handle_mouse_click e event x y flags param (t, w) = (Inr (), t, w)"
  by (simp add: handle_mouse_click_def)

theorem other_events_ignored_witness:
  "EVENT_MOUSEMOVE \<noteq> EVENT_LBUTTONDOWN \<and> EVENT_LBUTTONUP \<noteq> EVENT_LBUTTONDOWN
   \<and> EVENT_RBUTTONDOWN \<noteq> EVENT_LBUTTONDOWN
   \<and> handle_mouse_click example_env EVENT_MOUSEMOVE 1 1 0 () (example_tool, world0)
       = (Inr (), example_tool, world0)
   \<and> handle_mouse_click example_env EVENT_LBUTTONUP 1 1 0 () (example_tool, world0)
       = (Inr (), example_tool, world0)
   \<and> handle_mouse_click example_env EVENT_RBUTTONDOWN 1 1 2 () (example_tool, world0)
       = (Inr (), example_tool, world0)"
proof -
  have a: "EVENT_MOUSEMOVE \<noteq> EVENT_LBUTTONDOWN" and b: "EVENT_LBUTTONUP \<noteq> EVENT_LBUTTONDOWN"
    and c: "EVENT_RBUTTONDOWN \<noteq> EVENT_LBUTTONDOWN"
    by (simp_all add: EVENT_MOUSEMOVE_def EVENT_LBUTTONUP_def EVENT_RBUTTONDOWN_def
        EVENT_LBUTTONDOWN_def)
  from a b c other_events_ignored [OF a, of example_env 1 1 0 "()" example_tool world0]
    other_events_ignored [OF b, of example_env 1 1 0 "()" example_tool world0]
    other_events_ignored [OF c, of example_env 1 1 2 "()" example_tool world0]
  show ?thesis by blast
qed

section \<open>The session\<close>

lemma deliver_console:
  "\<exists>t'. deliver e evs (t, w) =
     (Inr (), t', w\<lparr>console := console w @ concat (map click_lines (left_clicks evs))\<rparr>)"
proof (induction evs arbitrary: t w)
  case Nil
  then show ?case by simp
next
  case (Cons ev evs)
  obtain event x y flags where ev: "ev = (event, x, y, flags)"
    by (cases ev) auto
  show ?case
  proof (cases "event = EVENT_LBUTTONDOWN")
    case True
    obtain t1 where h: "handle_mouse_click e EVENT_LBUTTONDOWN x y flags () (t, w) =
        (Inr (), t1, w\<lparr>console := console w @ click_lines (x, y)\<rparr>)"
      using handle_click_left [of t x y e flags "()" w] by (auto simp: click_lines_def)
    obtain t' where "deliver e evs (t1, w\<lparr>console := console w @ click_lines (x, y)\<rparr>) =
        (Inr (), t', w\<lparr>console := console w @ click_lines (x, y)
                          @ concat (map click_lines (left_clicks evs))\<rparr>)"
      using Cons.IH [of t1 "w\<lparr>console := console w @ click_lines (x, y)\<rparr>"] by auto
    then show ?thesis using True h ev by simp
  next
    case False
    then show ?thesis
      using Cons.IH [of t w] ev by (simp add: handle_click_other)
  qed
qed

lemma session_loop_console:
  "session_loop e tks (t, w) = Some (r, t', w') \<Longrightarrow>
     r = Inr () \<and> console w' = console w @ concat (map click_lines (clicks_until_esc tks))"
proof (induction tks arbitrary: t w)
  case Nil
  then show ?case by simp
next
  case (Cons tk tks)
  let ?w1 = "cv2_imshow window_name (image t) w"
  obtain t1 where d: "deliver e (mouse tk) (t, ?w1) =
      (Inr (), t1, ?w1\<lparr>console := console ?w1 @ concat (map click_lines (left_clicks (mouse tk)))\<rparr>)"
    using deliver_console by blast
  have c1: "console ?w1 = console w" by (simp add: cv2_imshow_def)
  show ?case
  proof (cases "key tk AND 0xFF = 27")
    case True
    then show ?thesis using Cons.prems d c1 by (auto simp: Let_def)
  next
    case False
    then have "session_loop e tks
        (t1, ?w1\<lparr>console := console ?w1 @ concat (map click_lines (left_clicks (mouse tk)))\<rparr>)
        = Some (r, t', w')"
      using Cons.prems d by (simp add: Let_def)
    from Cons.IH [OF this] show ?thesis using False c1 by simp
  qed
qed

text \<open>Once the loop has returned, turns that follow are not processed.\<close>

lemma session_loop_append:
  "session_loop e tks s = Some r \<Longrightarrow> session_loop e (tks @ later) s = Some r"
proof (induction tks arbitrary: s)
  case Nil
  then show ?case by simp
next
  case (Cons tk tks)
  then show ?case
    by (auto simp: Let_def split: prod.splits sum.splits if_splits)
qed

lemma run_session_console:
  assumes "run_interactive_session e tks (t, w) = Some (r, t', w')"
  shows "r = Inr () \<and> console w' = console w @ [''Press ESC to exit.'']
           @ concat (map click_lines (clicks_until_esc tks)) @ [''Interactive session ended.'']"
proof -
  let ?w2 = "print ''Press ESC to exit.'' (initialize_interactive_session w)"
  have c2: "console ?w2 = console w @ [''Press ESC to exit.'']"
    by (simp add: print_def initialize_interactive_session_def cv2_setMouseCallback_def
        cv2_namedWindow_def)
  obtain r1 t1 w1 where l: "session_loop e tks (t, ?w2) = Some (r1, t1, w1)"
    using assms by (auto simp: run_interactive_session_def Let_def split: option.splits)
  from session_loop_console [OF l] have r1: "r1 = Inr ()"
    and c1: "console w1 = console ?w2 @ concat (map click_lines (clicks_until_esc tks))"
    by auto
  have "w' = print ''Interactive session ended.'' (cv2_destroyAllWindows w1)" and "r = Inr ()"
    using assms l r1 by (auto simp: run_interactive_session_def Let_def)
  then show ?thesis using c1 c2 by (simp add: print_def cv2_destroyAllWindows_def)
qed

text \<open>
  C6: when the first turn after the window was created returns ESC (key code 27 in
  the low byte) and delivers no mouse event, the session, running with its window
  open, ends: the windows are released, the console gains "Press ESC to exit." and
  "Interactive session ended." and no inpaint line, the image is as it was, and the
  turns after that one are not processed.
\<close>

theorem esc_immediately:
  assumes "key tk AND 0xFF = 27" and "mouse tk = []"
  shows "\<exists>w'. run_interactive_session e (tk # rest) (t, w) = Some (Inr (), t, w')
           \<and> window_name \<in> set (windows (initialize_interactive_session w))
           \<and> windows w' = [] \<and> callbacks w' = [] \<and> displayed w' = []
           \<and> console w' = console w @ [''Press ESC to exit.'', ''Interactive session ended.'']
           \<and> filter is_inpaint_line [''Press ESC to exit.'', ''Interactive session ended.''] = []
           \<and> run_interactive_session e (tk # rest) (t, w) = run_interactive_session e [tk] (t, w)"
  using assms
  by (simp add: run_interactive_session_def Let_def print_def cv2_destroyAllWindows_def
      cv2_imshow_def initialize_interactive_session_def cv2_setMouseCallback_def
      cv2_namedWindow_def is_inpaint_line_def starts_with_def)

theorem esc_immediately_witness:
  "key esc_tick AND 0xFF = 27 \<and> mouse esc_tick = []
   \<and> (\<exists>w'. run_interactive_session example_env (esc_tick # [click_tick]) (example_tool, world0)
              = Some (Inr (), example_tool, w')
          \<and> windows w' = []
          \<and> console w' = console world0 @ [''Press ESC to exit.'', ''Interactive session ended.''])"
proof -
  have k: "key esc_tick AND 0xFF = 27" and m: "mouse esc_tick = []"
    by (simp_all add: esc_tick_def)
  from esc_immediately [OF k m, of example_env "[click_tick]" example_tool world0] k m
  show ?thesis by blast
qed

section \<open>The entry point\<close>

lemma except_print_ok: "fst (except_print rw) = Inr ()"
  by (cases "fst rw") (simp_all add: except_print_def)

lemma except_print_Inl: "except_print (Inl err, w) = (Inr (), print (message err) w)"
  by (simp add: except_print_def)

lemma main_path_missing:
  "\<not> os_path_exists e ''data/example.png'' \<Longrightarrow>
     main e tks w = Some (Inr (), print (message (PathNotFound ''data/example.png'')) w)"
  by (simp add: main_def main_try_def ImageInpaintingTool_def load_image_def except_print_Inl)

lemma main_not_decoded:
  "os_path_exists e ''data/example.png'' \<Longrightarrow> cv2_imread e ''data/example.png'' = None \<Longrightarrow>
     main e tks w = Some (Inr (), print (message ImageDecodeFailure) w)"
  by (simp add: main_def main_try_def ImageInpaintingTool_def load_image_def except_print_Inl)

text \<open>
  C7: the entry point never lets an exception out. Whatever error the body raises,
  PathNotFound, ImageDecodeFailure and InvalidMethod among them, the handler prints
  its message and the program ends normally; so it does when the path is missing
  and when the file cannot be decoded.
\<close>

theorem top_level_catches:
  "(\<forall>r w'. main e tks w = Some (r, w') \<longrightarrow> r = Inr ())
   \<and> (\<forall>err w'. main_try e tks w = Some (Inl err, w')
         \<longrightarrow> main e tks w = Some (Inr (), print (message err) w'))
   \<and> (\<forall>err \<in> {PathNotFound p, ImageDecodeFailure, InvalidMethod}. \<forall>w'.
         except_print (Inl err, w') = (Inr (), print (message err) w'))
   \<and> (\<not> os_path_exists e ''data/example.png''
         \<longrightarrow> main e tks w = Some (Inr (), print (message (PathNotFound ''data/example.png'')) w))
   \<and> (os_path_exists e ''data/example.png'' \<and> cv2_imread e ''data/example.png'' = None
         \<longrightarrow> main e tks w = Some (Inr (), print (message ImageDecodeFailure) w))"
proof -
  have a: "r = Inr ()" if run: "main e tks w = Some (r, w')" for r w'
  proof -
    obtain rw where "except_print rw = (r, w')"
      using run by (auto simp: main_def)
    then have "r = fst (except_print rw)" by simp
    then show ?thesis by (simp add: except_print_ok)
  qed
  have b: "main e tks w = Some (Inr (), print (message err) w')"
    if "main_try e tks w = Some (Inl err, w')" for err w'
    using that by (simp add: main_def except_print_Inl)
  show ?thesis
    using a b main_path_missing main_not_decoded except_print_Inl by blast
qed

theorem top_level_catches_witness:
  "\<not> os_path_exists (example_env\<lparr>os_path_exists := (\<lambda>p. False)\<rparr>) ''data/example.png''
   \<and> main (example_env\<lparr>os_path_exists := (\<lambda>p. False)\<rparr>) example_ticks world0
       = Some (Inr (), print (message (PathNotFound ''data/example.png'')) world0)
   \<and> except_print (Inl InvalidMethod, world0) = (Inr (), print (message InvalidMethod) world0)"
proof -
  have h: "\<not> os_path_exists (example_env\<lparr>os_path_exists := (\<lambda>p. False)\<rparr>) ''data/example.png''"
    by simp
  from top_level_catches [of "example_env\<lparr>os_path_exists := (\<lambda>p. False)\<rparr>" example_ticks world0
      "''data/example.png''"] h
  show ?thesis by blast
qed

section \<open>The console\<close>

lemma main_console:
  assumes "main e tks w = Some (r, w')"
  shows "console w' = console w @
           (case ImageInpaintingTool e ''data/example.png'' of
              Inl err \<Rightarrow> [message err]
            | Inr obj \<Rightarrow> [''Image loaded successfully.'', ''Press ESC to exit.'']
                @ concat (map click_lines (clicks_until_esc tks))
                @ [''Interactive session ended.''])"
proof (cases "ImageInpaintingTool e ''data/example.png''")
  case (Inl err)
  then show ?thesis using assms
    by (auto simp: main_def main_try_def except_print_def print_def)
next
  case (Inr obj)
  then obtain r1 s1 where run: "run_interactive_session e tks
      (obj, print ''Image loaded successfully.'' w) = Some (r1, s1)"
    and mt: "main_try e tks w = Some (r1, snd s1)"
    using assms by (auto simp: main_def main_try_def Let_def split: option.splits)
  from run_session_console [of e tks obj _ r1 "fst s1" "snd s1"] run
  have r1: "r1 = Inr ()" and "console (snd s1) = console w @ [''Image loaded successfully.'']
      @ [''Press ESC to exit.''] @ concat (map click_lines (clicks_until_esc tks))
      @ [''Interactive session ended.'']"
    by (auto simp: print_def)
  moreover have "w' = snd s1"
    using assms mt r1 by (simp add: main_def except_print_def)
  ultimately show ?thesis using Inr by simp
qed

lemma example_run:
  "map_option (console \<circ> snd) (main example_env example_ticks world0) =
     Some [''Image loaded successfully.'', ''Press ESC to exit.'', ''Coordinates received: (1, 1)'',
           inpaint_line (1, 1) ''telea'', ''Interactive session ended.'']"
  by code_simp

text \<open>
  C8, as amended: the console output of a run that ends consists of the enumerated
  lines and of one line "Coordinates received: (x, y)" before the inpaint line of
  each left-button press. A run that cannot load the image prints the message of
  the error and nothing else; any other run prints the line on the load, the line
  on the session's start, for each left-button press up to ESC the coordinates line
  and the inpaint line with the method "telea", and the line on the session's end.
\<close>

theorem console_lines:
  assumes "main e tks w = Some (r, w')"
  shows "console w' = console w @
           (case ImageInpaintingTool e ''data/example.png'' of
              Inl err \<Rightarrow> [message err]
            | Inr obj \<Rightarrow> [''Image loaded successfully.'', ''Press ESC to exit.'']
                @ concat (map click_lines (clicks_until_esc tks))
                @ [''Interactive session ended.''])
         \<and> (\<forall>l \<in> set (drop (length (console w)) (console w')).
               enumerated_line (caught_messages e tks w) l \<or> is_coords_line l)"
proof -
  let ?new = "case ImageInpaintingTool e ''data/example.png'' of
              Inl err \<Rightarrow> [message err]
            | Inr obj \<Rightarrow> [''Image loaded successfully.'', ''Press ESC to exit.'']
                @ concat (map click_lines (clicks_until_esc tks))
                @ [''Interactive session ended.'']"
  have eq: "console w' = console w @ ?new"
    using main_console [OF assms] .
  have "enumerated_line (caught_messages e tks w) l \<or> is_coords_line l" if "l \<in> set ?new" for l
  proof (cases "ImageInpaintingTool e ''data/example.png''")
    case (Inl err)
    then have "caught_messages e tks w = [message err]"
      by (simp add: caught_messages_def main_try_def)
    then show ?thesis using that Inl by (simp add: enumerated_line_def)
  next
    case (Inr obj)
    with that have "l \<in> {''Image loaded successfully.'', ''Press ESC to exit.'',
         ''Interactive session ended.''} \<or> (\<exists>c. l = coords_line c \<or> l = inpaint_line c ''telea'')"
      by (auto simp: click_lines_def)
    then show ?thesis
      by (auto simp: enumerated_line_def is_inpaint_line_inpaint is_coords_line_coords)
  qed
  with eq show ?thesis by simp
qed

theorem console_lines_witness:
  "main example_env example_ticks world0 \<noteq> None
   \<and> map_option (console \<circ> snd) (main example_env example_ticks world0) =
       Some [''Image loaded successfully.'', ''Press ESC to exit.'', coords_line (1, 1),
             inpaint_line (1, 1) ''telea'', ''Interactive session ended.'']"
proof -
  have v: "map_option (console \<circ> snd) (main example_env example_ticks world0) =
     Some [''Image loaded successfully.'', ''Press ESC to exit.'', ''Coordinates received: (1, 1)'',
           inpaint_line (1, 1) ''telea'', ''Interactive session ended.'']"
    by (rule example_run)
  then obtain r w' where run: "main example_env example_ticks world0 = Some (r, w')"
    by auto
  have l: "ImageInpaintingTool example_env ''data/example.png'' = Inr example_tool"
    by (simp add: ImageInpaintingTool_def load_image_def example_env_def example_tool_def)
  have c: "clicks_until_esc example_ticks = [(1, 1)]"
    by (simp add: example_ticks_def click_tick_def esc_tick_def EVENT_MOUSEMOVE_def
        EVENT_LBUTTONDOWN_def)
  from console_lines [OF run] l c have "console w' = console world0 @
      [''Image loaded successfully.'', ''Press ESC to exit.'', coords_line (1, 1),
       inpaint_line (1, 1) ''telea'', ''Interactive session ended.'']"
    by (simp add: click_lines_def)
  with run show ?thesis by (simp add: world0_def)
qed

text \<open>
  C8 as stated fails: a run with one click prints "Coordinates received: (1, 1)",
  which is none of the enumerated lines, while no error was caught.
\<close>

theorem console_lines_counterexample:
  "map_option (console \<circ> snd) (main example_env example_ticks world0) =
     Some [''Image loaded successfully.'', ''Press ESC to exit.'', ''Coordinates received: (1, 1)'',
           inpaint_line (1, 1) ''telea'', ''Interactive session ended.'']
   \<and> caught_messages example_env example_ticks world0 = []
   \<and> \<not> enumerated_line [] ''Coordinates received: (1, 1)''"
proof -
  have "caught_messages example_env example_ticks world0 = []"
    by code_simp
  moreover have "\<not> enumerated_line [] ''Coordinates received: (1, 1)''"
    by (simp add: enumerated_line_def is_inpaint_line_def starts_with_def)
  ultimately show ?thesis using example_run by blast
qed

end
